theory Spec2Isabelle
  imports Complex_Main "HOL-Library.Word"
begin

section \<open>Media Analysis Bot: a shallow embedding of app.py\<close>

text \<open>
  The program is one Python file. Its functions are embedded here with the names they have
  in the source. Everything the program does to the outside (the temporary files it
  creates, what it writes to the page, the requests it sends, the position of the uploaded
  file object) is a field of the record \<open>world\<close>, passed in and returned. Everything
  the outside decides (the video decoder, the JPEG encoder, the remote endpoint, the name
  of the temporary file) is a field of the record \<open>env\<close>. An exception is a value.
\<close>

subsection \<open>Python values\<close>

type_synonym byte = "8 word"

text \<open>An exception object: its class name and \<open>str(e)\<close>.\<close>

datatype exn = Exception (exc_class: string) (exc_str: string)

text \<open>
  How a call that may not return normally ends: it returns, it raises, or it ends the
  script run through \<open>st.stop()\<close>.
\<close>

datatype 'a outcome = Returned 'a | Stopped | Raised exn

text \<open>Truthiness of a value that is \<open>None\<close> or a \<open>str\<close>; \<open>str()\<close> of such a value.\<close>

fun truthy :: "string option \<Rightarrow> bool" where
  "truthy None = False"
| "truthy (Some s) = (s \<noteq> [])"

fun py_str :: "string option \<Rightarrow> string" where
  "py_str None = ''None''"
| "py_str (Some s) = s"

subsection \<open>The page, the request and the world\<close>

datatype ui_event =
    St_set_page_config string
  | St_title string
  | St_write string
  | St_warning string
  | St_error string
  | St_success string
  | St_image string
  | St_text_input string
  | St_radio string
  | St_file_uploader string
  | St_spinner string
  | St_expander string

datatype part = Text_part string | Image_url_part string

record message =
  role :: string
  content :: "part list"

record request =
  messages :: "message list"
  model :: string
  temperature :: rat
  max_tokens :: int

record choice =
  message_content :: "string option"

record response =
  choices :: "choice list"

record world =
  disk :: "string \<rightharpoonup> byte list"
  screen :: "ui_event list"
  sent :: "request list"
  fpos :: nat

definition st_emit :: "ui_event \<Rightarrow> world \<Rightarrow> world" where
  "st_emit ev w = w\<lparr>screen := screen w @ [ev]\<rparr>"

subsection \<open>The uploaded file object\<close>

text \<open>
  Streamlit's \<open>UploadedFile\<close> is a \<open>BytesIO\<close> with a \<open>size\<close> attribute. Its read
  position is the field \<open>fpos\<close> of the world. \<open>seek\<close> and \<open>read\<close> raise
  \<open>ValueError\<close> on a closed file.
\<close>

record upload =
  file_bytes :: "byte list"
  size_bytes :: nat
  closed :: bool

definition closed_file_error :: exn where
  "closed_file_error = Exception ''ValueError'' ''I/O operation on closed file.''"

definition file_seek :: "upload \<Rightarrow> nat \<Rightarrow> world \<Rightarrow> exn + world" where
  "file_seek f n w = (if closed f then Inl closed_file_error else Inr (w\<lparr>fpos := n\<rparr>))"

definition file_read :: "upload \<Rightarrow> world \<Rightarrow> exn + (byte list \<times> world)" where
  "file_read f w =
     (if closed f then Inl closed_file_error
      else Inr (drop (fpos w) (file_bytes f),
                w\<lparr>fpos := max (fpos w) (length (file_bytes f))\<rparr>))"

subsection \<open>The standard library's base64\<close>

text \<open>
  \<open>base64.b64encode\<close> with the standard alphabet and \<open>=\<close> padding (RFC 4648): three
  bytes make a 24-bit number, cut into four 6-bit digits. \<open>b64decode\<close> is the strict
  decoder of the same format: \<open>None\<close> stands for \<open>binascii.Error\<close>.
\<close>

definition b64_alphabet :: string where
  "b64_alphabet = ''ABCDEFGHIJKLMNOPQRSTUVWXYZabcdefghijklmnopqrstuvwxyz0123456789+/''"

definition b64_char :: "nat \<Rightarrow> char" where
  "b64_char n = b64_alphabet ! n"

fun index_of :: "'a \<Rightarrow> 'a list \<Rightarrow> nat option" where
  "index_of c [] = None"
| "index_of c (x # xs) = (if c = x then Some 0 else map_option Suc (index_of c xs))"

definition b64_index :: "char \<Rightarrow> nat option" where
  "b64_index c = index_of c b64_alphabet"

fun b64encode :: "byte list \<Rightarrow> string" where
  "b64encode (a # b # c # rest) =
     (let n = unat a * 65536 + unat b * 256 + unat c
      in [b64_char (n div 262144), b64_char (n div 4096 mod 64),
          b64_char (n div 64 mod 64), b64_char (n mod 64)] @ b64encode rest)"
| "b64encode [a, b] =
     (let n = unat a * 65536 + unat b * 256
      in [b64_char (n div 262144), b64_char (n div 4096 mod 64),
          b64_char (n div 64 mod 64), CHR ''=''])"
| "b64encode [a] =
     (let n = unat a * 65536
      in [b64_char (n div 262144), b64_char (n div 4096 mod 64), CHR ''='', CHR ''=''])"
| "b64encode [] = []"

fun b64decode :: "string \<Rightarrow> byte list option" where
  "b64decode (c1 # c2 # c3 # c4 # rest) =
     (if rest = [] \<and> c3 = CHR ''='' \<and> c4 = CHR ''='' then
        (case (b64_index c1, b64_index c2) of
           (Some s1, Some s2) \<Rightarrow>
             (let n = s1 * 262144 + s2 * 4096 in Some [of_nat (n div 65536)])
         | _ \<Rightarrow> None)
      else if rest = [] \<and> c4 = CHR ''='' then
        (case (b64_index c1, b64_index c2, b64_index c3) of
           (Some s1, Some s2, Some s3) \<Rightarrow>
             (let n = s1 * 262144 + s2 * 4096 + s3 * 64
              in Some [of_nat (n div 65536), of_nat (n div 256 mod 256)])
         | _ \<Rightarrow> None)
      else
        (case (b64_index c1, b64_index c2, b64_index c3, b64_index c4) of
           (Some s1, Some s2, Some s3, Some s4) \<Rightarrow>
             (let n = s1 * 262144 + s2 * 4096 + s3 * 64 + s4
              in map_option
                   (\<lambda>bs. of_nat (n div 65536) # of_nat (n div 256 mod 256)
                           # of_nat (n mod 256) # bs)
                   (b64decode rest))
         | _ \<Rightarrow> None))"
| "b64decode [] = Some []"
| "b64decode _ = None"

subsection \<open>OpenCV and Pillow\<close>

text \<open>
  A frame is rows of pixels in OpenCV's blue, green, red order. What a video file decodes
  to is the environment's business: a \<open>capture\<close> says whether the file opened, the frame
  count the container reports (already through Python's \<open>int()\<close>) and the frame that
  \<open>read()\<close> yields after a seek to a given index, if any. The reported count and the
  readable frames are separate data, as they are in OpenCV, where the count comes from the
  container's metadata. A capture that did not open answers 0 to \<open>get\<close> and fails
  every \<open>read\<close>.
\<close>

type_synonym pixel = "byte \<times> byte \<times> byte"
type_synonym frame = "pixel list list"

datatype image = Pil_image (pixels: frame)

record capture =
  opened :: bool
  frame_count :: int
  frame_at :: "int \<Rightarrow> frame option"
  position :: int

definition unopened_capture :: capture where
  "unopened_capture =
     \<lparr>opened = False, frame_count = 0, frame_at = (\<lambda>i. None), position = 0\<rparr>"

definition cap_get_frame_count :: "capture \<Rightarrow> int" where
  "cap_get_frame_count cap = (if opened cap then frame_count cap else 0)"

definition cap_set_pos_frames :: "capture \<Rightarrow> int \<Rightarrow> capture" where
  "cap_set_pos_frames cap i = (if opened cap then cap\<lparr>position := i\<rparr> else cap)"

definition cap_read :: "capture \<Rightarrow> frame option" where
  "cap_read cap = (if opened cap then frame_at cap (position cap) else None)"

definition cvtColor_BGR2RGB :: "frame \<Rightarrow> frame" where
  "cvtColor_BGR2RGB fr = map (map (\<lambda>(b, g, r). (r, g, b))) fr"

definition fromarray :: "frame \<Rightarrow> image" where
  "fromarray fr = Pil_image fr"

subsection \<open>The environment\<close>

record env =
  tmp_name :: "exn + string"
  decoder :: "byte list \<Rightarrow> capture"
  imencode :: "frame \<Rightarrow> exn + byte list"
  create :: "string \<Rightarrow> request \<Rightarrow> exn + response"

text \<open>
  \<open>tempfile.NamedTemporaryFile(delete=False, suffix='.mp4')\<close> raises or creates an empty
  file under the name the environment picks; writing to it stores the bytes; \<open>os.unlink\<close>
  removes it; \<open>cv2.VideoCapture(path)\<close> lets the decoder look at the bytes stored
  there.
\<close>

definition named_temporary_file :: "env \<Rightarrow> world \<Rightarrow> exn + (string \<times> world)" where
  "named_temporary_file e w =
     (case tmp_name e of
        Inl ex \<Rightarrow> Inl ex
      | Inr path \<Rightarrow> Inr (path, w\<lparr>disk := (disk w)(path \<mapsto> [])\<rparr>))"

definition tmp_write :: "string \<Rightarrow> byte list \<Rightarrow> world \<Rightarrow> world" where
  "tmp_write path bs w = w\<lparr>disk := (disk w)(path \<mapsto> bs)\<rparr>"

definition os_unlink :: "string \<Rightarrow> world \<Rightarrow> world" where
  "os_unlink path w = w\<lparr>disk := (disk w)(path := None)\<rparr>"

definition cv2_VideoCapture :: "env \<Rightarrow> world \<Rightarrow> string \<Rightarrow> capture" where
  "cv2_VideoCapture e w path =
     (case disk w path of None \<Rightarrow> unopened_capture | Some bs \<Rightarrow> decoder e bs)"

subsection \<open>setup_page and load_api_key\<close>

definition setup_page :: "world \<Rightarrow> world" where
  "setup_page w =
     st_emit (St_write ''Upload an image or video and ask questions about it!'')
       (st_emit (St_title ''Media Analysis Bot'')
          (st_emit (St_set_page_config ''Media Analysis Bot'') w))"

datatype media = Image | Video

text \<open>
  What the user and the deployment supply to one run of the script: the secrets file as
  its key and value pairs, what is typed into the password box, the radio choice, the
  upload and the question.
\<close>

record inputs =
  secrets :: "(string \<times> string) list"
  typed_key :: string
  media_type :: media
  uploaded_file :: "upload option"
  query :: string

text \<open>
  \<open>st.secrets[key]\<close> is a subscript: a key that is not there raises \<open>KeyError\<close>
  (its message is abridged to the key here).
\<close>

definition secrets_getitem :: "inputs \<Rightarrow> string \<Rightarrow> exn + string" where
  "secrets_getitem i k =
     (case map_of (secrets i) k of
        None \<Rightarrow> Inl (Exception ''KeyError'' k)
      | Some v \<Rightarrow> Inr v)"

definition load_api_key :: "inputs \<Rightarrow> world \<Rightarrow> string outcome \<times> world" where
  "load_api_key i w =
     (case secrets_getitem i ''GROQ_API_KEY'' of
        Inl ex \<Rightarrow> (Raised ex, w)
      | Inr api_key \<Rightarrow>
          if api_key = [] then
            (let w1 = st_emit (St_text_input ''Enter your Groq API key:'') w;
                 api_key = typed_key i
             in if api_key = [] then
                  (Stopped,
                   st_emit (St_warning ''Please enter your Groq API key to continue.'') w1)
                else (Returned api_key, w1))
          else (Returned api_key, w))"

subsection \<open>encode_image\<close>

definition encode_image :: "upload \<Rightarrow> world \<Rightarrow> string option \<times> world" where
  "encode_image file w =
     (case file_seek file 0 w of
        Inl ex \<Rightarrow> (None, st_emit (St_error (''Error encoding file: '' @ exc_str ex)) w)
      | Inr w1 \<Rightarrow>
          (case file_read file w1 of
             Inl ex \<Rightarrow> (None, st_emit (St_error (''Error encoding file: '' @ exc_str ex)) w1)
           | Inr (file_content, w2) \<Rightarrow> (Some (b64encode file_content), w2)))"

subsection \<open>process_video_frame\<close>

text \<open>
  The \<open>try\<close> has one handler, which reports the exception and returns
  \<open>(None, None)\<close>; it holds no \<open>os.unlink\<close>. The two branches of \<open>if ret\<close> each
  release the capture and unlink the file before they return.
\<close>

definition process_video_frame ::
  "env \<Rightarrow> upload \<Rightarrow> world \<Rightarrow> (string option \<times> image option) \<times> world" where
  "process_video_frame e video_file w =
     (case named_temporary_file e w of
        Inl ex \<Rightarrow>
          ((None, None), st_emit (St_error (''Error processing video: '' @ exc_str ex)) w)
      | Inr (video_path, w1) \<Rightarrow>
          (case file_read video_file w1 of
             Inl ex \<Rightarrow>
               ((None, None),
                st_emit (St_error (''Error processing video: '' @ exc_str ex)) w1)
           | Inr (data, w2) \<Rightarrow>
               (let w3 = tmp_write video_path data w2;
                    cap = cv2_VideoCapture e w3 video_path;
                    total_frames = cap_get_frame_count cap;
                    middle_frame = total_frames div 2;
                    cap1 = cap_set_pos_frames cap middle_frame
                in case cap_read cap1 of
                     Some frame \<Rightarrow>
                       (case imencode e frame of
                          Inl ex \<Rightarrow>
                            ((None, None),
                             st_emit (St_error (''Error processing video: '' @ exc_str ex)) w3)
                        | Inr buffer \<Rightarrow>
                            (let base64_encoded = b64encode buffer;
                                 frame_rgb = cvtColor_BGR2RGB frame;
                                 display_image = fromarray frame_rgb
                             in ((Some base64_encoded, Some display_image),
                                 os_unlink video_path w3)))
                   | None \<Rightarrow> ((None, None), os_unlink video_path w3))))"

subsection \<open>analyze_with_groq\<close>

record client =
  api_key :: string

definition Groq :: "string \<Rightarrow> client" where
  "Groq k = \<lparr>api_key = k\<rparr>"

text \<open>
  The call to \<open>client.chat.completions.create\<close> is the network call: the request is
  appended to \<open>sent\<close> whether or not the endpoint answers. \<open>choices[0]\<close> of an empty
  list raises \<open>IndexError\<close>, which the handler reports like any other exception.
\<close>

definition build_messages :: "string option \<Rightarrow> string \<Rightarrow> message list" where
  "build_messages base64_image query_text =
     [\<lparr>role = ''user'',
       content =
         [Text_part (''Please analyze this image and answer: '' @ query_text),
          Image_url_part (''data:image/jpeg;base64,'' @ py_str base64_image)]\<rparr>]"

definition analyze_with_groq ::
  "env \<Rightarrow> client \<Rightarrow> string option \<Rightarrow> string \<Rightarrow> world \<Rightarrow> string option \<times> world" where
  "analyze_with_groq e cl base64_image query_text w =
     (let msgs = build_messages base64_image query_text;
          w1 = st_emit (St_spinner ''Analyzing with Groq...'') w;
          req = \<lparr>messages = msgs, model = ''llama-3.2-11b-vision-preview'',
                 temperature = 7 / 10, max_tokens = 1000\<rparr>;
          w2 = w1\<lparr>sent := sent w1 @ [req]\<rparr>
      in case create e (api_key cl) req of
           Inl ex \<Rightarrow> (None, st_emit (St_error (''Analysis error: '' @ exc_str ex)) w2)
         | Inr resp \<Rightarrow>
             (case choices resp of
                [] \<Rightarrow>
                  (None, st_emit (St_error ''Analysis error: list index out of range'') w2)
              | c # cs \<Rightarrow> (message_content c, w2)))"

subsection \<open>main\<close>

text \<open>
  Lines 158 to 167: the client is called only with a truthy payload; with \<open>None\<close> or
  the empty string the page shows an error instead.
\<close>

definition analyze_if_payload ::
  "env \<Rightarrow> client \<Rightarrow> string option \<Rightarrow> string \<Rightarrow> world \<Rightarrow> world" where
  "analyze_if_payload e cl base64_image query_text w =
     (if truthy base64_image then
        (case analyze_with_groq e cl base64_image query_text w of
           (analysis, w1) \<Rightarrow>
             if truthy analysis then
               st_emit (St_write (py_str analysis))
                 (st_emit (St_write ''### Analysis Results'')
                    (st_emit (St_success ''Analysis Complete!'') w1))
             else w1)
      else st_emit (St_error ''Failed to process media file.'') w)"

text \<open>
  Lines 147 to 170, the body of the \<open>try\<close>. Nothing in it raises in this model (each
  callee has its own handler), so the handler of line 169 has no branch here.
\<close>

definition process_media ::
  "env \<Rightarrow> client \<Rightarrow> media \<Rightarrow> upload \<Rightarrow> string \<Rightarrow> world \<Rightarrow> world" where
  "process_media e cl mt file query_text w =
     (case mt of
        Image \<Rightarrow>
          (case encode_image file (st_emit (St_image ''Uploaded Image'') w) of
             (base64_image, w1) \<Rightarrow> analyze_if_payload e cl base64_image query_text w1)
      | Video \<Rightarrow>
          (case process_video_frame e file (st_emit (St_write ''Processing video frame...'') w) of
             ((base64_image, display_frame), w1) \<Rightarrow>
               (let w2 = (case display_frame of
                            Some img \<Rightarrow>
                              st_emit (St_image ''Analyzed Video Frame (Middle Frame)'') w1
                          | None \<Rightarrow> w1)
                in analyze_if_payload e cl base64_image query_text w2)))"

text \<open>
  Lines 140 to 145. The size in megabytes is a true division by \<open>1024 * 1024\<close>; as that
  is a power of two, the float quotient of a size below \<open>2 ^ 53\<close> bytes is the exact
  quotient, taken here as a rational.
\<close>

definition file_size_mb :: "upload \<Rightarrow> rat" where
  "file_size_mb file = of_nat (size_bytes file) / (1024 * 1024)"

definition too_large :: "upload \<Rightarrow> bool" where
  "too_large file = (file_size_mb file > 10)"

datatype flow = Return_now | Fall_through

definition upload_section ::
  "env \<Rightarrow> client \<Rightarrow> media \<Rightarrow> upload option \<Rightarrow> string \<Rightarrow> world \<Rightarrow> flow \<times> world" where
  "upload_section e cl mt up query_text w =
     (case up of
        None \<Rightarrow> (Fall_through, w)
      | Some file \<Rightarrow>
          if query_text = [] then (Fall_through, w)
          else if too_large file then
            (Return_now,
             st_emit (St_error ''File is too large! Please upload a file smaller than 10MB.'') w)
          else (Fall_through, process_media e cl mt file query_text w))"

definition widgets :: "world \<Rightarrow> world" where
  "widgets w =
     st_emit (St_text_input ''What would you like to know about the media?'')
       (st_emit (St_file_uploader ''Maximum recommended file size: 5MB'')
          (st_emit (St_radio ''Select media type:'')
             (st_emit (St_write ''### Upload Media'') w)))"

definition footer :: "world \<Rightarrow> world" where
  "footer w =
     st_emit (St_write ''Thank you for using the Media Analysis Bot!'')
       (st_emit (St_write ''---'')
          (st_emit (St_expander ''Tips for better results'') w))"

definition main :: "env \<Rightarrow> inputs \<Rightarrow> world \<Rightarrow> unit outcome \<times> world" where
  "main e i w =
     (case load_api_key i (setup_page w) of
        (Raised ex, w1) \<Rightarrow> (Raised ex, w1)
      | (Stopped, w1) \<Rightarrow> (Stopped, w1)
      | (Returned k, w1) \<Rightarrow>
          (case upload_section e (Groq k) (media_type i) (uploaded_file i) (query i)
                  (widgets w1) of
             (Return_now, w2) \<Rightarrow> (Returned (), w2)
           | (Fall_through, w2) \<Rightarrow> (Returned (), footer w2)))"

subsection \<open>Concrete runs\<close>

text \<open>
  Inputs on which the theorems below are evaluated: an empty world, an endpoint that
  answers, a clip of 101 one-pixel frames whose frame \<open>i\<close> has blue value \<open>i\<close>, a
  clip whose container reports no frames although its first frame decodes, a JPEG encoder
  that raises, and uploads on both sides of the size limit.
\<close>

definition blank_world :: world where
  "blank_world = \<lparr>disk = Map.empty, screen = [], sent = [], fpos = 0\<rparr>"

definition the_car_is_red :: response where
  "the_car_is_red = \<lparr>choices = [\<lparr>message_content = Some ''The car is red.''\<rparr>]\<rparr>"

definition one_pixel_frame :: "byte \<Rightarrow> frame" where
  "one_pixel_frame v = [[(v, 0, 0)]]"

definition raw_encoder :: "frame \<Rightarrow> byte list" where
  "raw_encoder fr = concat (map (\<lambda>row. concat (map (\<lambda>(b, g, r). [b, g, r]) row)) fr)"

definition clip_capture :: capture where
  "clip_capture =
     \<lparr>opened = True, frame_count = 101,
      frame_at = (\<lambda>i. if 0 \<le> i \<and> i < 101 then Some (one_pixel_frame (of_int i)) else None),
      position = 0\<rparr>"

definition headerless_capture :: capture where
  "headerless_capture =
     \<lparr>opened = True, frame_count = 0,
      frame_at = (\<lambda>i. if i = 0 then Some (one_pixel_frame 7) else None),
      position = 0\<rparr>"

definition clip_env :: env where
  "clip_env =
     \<lparr>tmp_name = Inr ''/tmp/tmpk3x9.mp4'',
      decoder = (\<lambda>bs. clip_capture),
      imencode = (\<lambda>fr. Inr (raw_encoder fr)),
      create = (\<lambda>k req. Inr the_car_is_red)\<rparr>"

definition headerless_env :: env where
  "headerless_env = clip_env\<lparr>decoder := (\<lambda>bs. headerless_capture)\<rparr>"

definition failing_encoder_env :: env where
  "failing_encoder_env =
     clip_env\<lparr>imencode := (\<lambda>fr. Inl (Exception ''cv2.error'' ''imencode failed''))\<rparr>"

definition clip_file :: upload where
  "clip_file = \<lparr>file_bytes = [0, 0, 0, 24, 102, 116, 121, 112], size_bytes = 8, closed = False\<rparr>"

definition man_file :: upload where
  "man_file = \<lparr>file_bytes = [77, 97, 110], size_bytes = 3, closed = False\<rparr>"

definition file_of_size :: "nat \<Rightarrow> upload" where
  "file_of_size n = \<lparr>file_bytes = replicate n 0, size_bytes = n, closed = False\<rparr>"

definition no_secret_inputs :: inputs where
  "no_secret_inputs =
     \<lparr>secrets = [], typed_key = ''gsk_typed'', media_type = Image,
      uploaded_file = Some man_file, query = ''What color is the car?''\<rparr>"

section \<open>Properties\<close>

subsection \<open>base64 decoding inverts encoding\<close>

lemma index_of_nth: "distinct xs \<Longrightarrow> n < length xs \<Longrightarrow> index_of (xs ! n) xs = Some n"
proof (induction xs arbitrary: n)
  case Nil
  then show ?case by simp
next
  case (Cons x xs)
  show ?case
  proof (cases n)
    case 0
    then show ?thesis by simp
  next
    case (Suc m)
    with Cons.prems have "xs ! m \<in> set xs" and "x \<notin> set xs" by auto
    then have "xs ! m \<noteq> x" by auto
    with Cons Suc show ?thesis by simp
  qed
qed

lemma distinct_b64_alphabet: "distinct b64_alphabet"
  by (simp add: b64_alphabet_def)

lemma length_b64_alphabet: "length b64_alphabet = 64"
  by (simp add: b64_alphabet_def)

lemma b64_index_char: "n < 64 \<Longrightarrow> b64_index (b64_char n) = Some n"
  by (simp add: b64_index_def b64_char_def index_of_nth distinct_b64_alphabet
        length_b64_alphabet)

lemma b64_char_not_pad: "n < 64 \<Longrightarrow> b64_char n \<noteq> CHR ''=''"
proof -
  assume "n < 64"
  then have "b64_char n \<in> set b64_alphabet"
    by (simp add: b64_char_def length_b64_alphabet)
  moreover have "CHR ''='' \<notin> set b64_alphabet"
    by (simp add: b64_alphabet_def)
  ultimately show ?thesis by auto
qed

lemma sextets_recombine:
  fixes n :: nat
  shows "n div 262144 * 262144 + n div 4096 mod 64 * 4096 + n div 64 mod 64 * 64 + n mod 64 = n"
proof -
  have q2: "n div 4096 = n div 64 div 64"
    using div_mult2_eq [of n 64 64] by simp
  have q3: "n div 262144 = n div 4096 div 64"
    using div_mult2_eq [of n 4096 64] by simp
  have e1: "n = n div 64 * 64 + n mod 64" by simp
  have e2: "n div 64 = n div 4096 * 64 + n div 64 mod 64" unfolding q2 by simp
  have e3: "n div 4096 = n div 262144 * 64 + n div 4096 mod 64" unfolding q3 by simp
  have "n = ((n div 262144 * 64 + n div 4096 mod 64) * 64 + n div 64 mod 64) * 64 + n mod 64"
    using e1 e2 e3 by metis
  then show ?thesis by (simp add: algebra_simps)
qed

lemma unat_byte_less: "unat (a :: byte) < 256"
  using unsigned_less [of a, where ?'a = nat] by simp

lemma triple_high:
  fixes x y z :: nat
  assumes "y < 256" "z < 256"
  shows "(x * 65536 + y * 256 + z) div 65536 = x"
  using assms by simp

lemma triple_mid:
  fixes x y z :: nat
  assumes "y < 256" "z < 256"
  shows "(x * 65536 + y * 256 + z) div 256 mod 256 = y"
proof -
  have "x * 65536 + y * 256 + z = z + (x * 256 + y) * 256" by simp
  then have "(x * 65536 + y * 256 + z) div 256 = x * 256 + y"
    using assms by (simp only: div_mult_self3)
  then show ?thesis using assms by simp
qed

lemma triple_low:
  fixes x y z :: nat
  assumes "z < 256"
  shows "(x * 65536 + y * 256 + z) mod 256 = z"
proof -
  have "x * 65536 + y * 256 + z = z + (x * 256 + y) * 256" by simp
  then have "(x * 65536 + y * 256 + z) mod 256 = z mod 256"
    by (simp only: mod_mult_self1)
  then show ?thesis using assms by simp
qed

lemma triple_top_sextet:
  fixes x y z :: nat
  assumes "x < 256" "y < 256" "z < 256"
  shows "(x * 65536 + y * 256 + z) div 262144 < 64"
  using assms by simp

text \<open>One full group of three bytes decodes to itself.\<close>

lemma decode_group3:
  fixes a b c :: byte
  defines "n \<equiv> unat a * 65536 + unat b * 256 + unat c"
  shows "b64decode (b64_char (n div 262144) # b64_char (n div 4096 mod 64)
            # b64_char (n div 64 mod 64) # b64_char (n mod 64) # rest)
         = map_option (\<lambda>bs. a # b # c # bs) (b64decode rest)"
proof -
  have lt: "n div 262144 < 64"
    unfolding n_def by (rule triple_top_sextet) (rule unat_byte_less)+
  have hi: "n div 65536 = unat a"
    unfolding n_def by (rule triple_high) (rule unat_byte_less)+
  have mid: "n div 256 mod 256 = unat b"
    unfolding n_def by (rule triple_mid) (rule unat_byte_less)+
  have lo: "n mod 256 = unat c"
    unfolding n_def by (rule triple_low) (rule unat_byte_less)
  have np3: "b64_char (n div 64 mod 64) \<noteq> CHR ''=''" by (simp add: b64_char_not_pad)
  have np4: "b64_char (n mod 64) \<noteq> CHR ''=''" by (simp add: b64_char_not_pad)
  show ?thesis
    by (simp add: np3 np4 b64_index_char lt sextets_recombine hi mid lo)
qed


lemma decode_group2:
  fixes a b :: byte
  defines "n \<equiv> unat a * 65536 + unat b * 256"
  shows "b64decode [b64_char (n div 262144), b64_char (n div 4096 mod 64),
            b64_char (n div 64 mod 64), CHR ''=''] = Some [a, b]"
proof -
  have n0: "n = unat a * 65536 + unat b * 256 + 0" by (simp add: n_def)
  have lt: "n div 262144 < 64"
    unfolding n0 by (rule triple_top_sextet) (simp_all add: unat_byte_less)
  have hi: "n div 65536 = unat a"
    unfolding n0 by (rule triple_high) (simp_all add: unat_byte_less)
  have mid: "n div 256 mod 256 = unat b"
    unfolding n0 by (rule triple_mid) (simp_all add: unat_byte_less)
  have "n = 0 + (unat a * 1024 + unat b * 4) * 64" by (simp add: n_def)
  then have "n mod 64 = 0 mod 64" by (simp only: mod_mult_self1)
  then have low0: "n mod 64 = 0" by simp
  have rec: "n div 262144 * 262144 + n div 4096 mod 64 * 4096 + n div 64 mod 64 * 64 = n"
    using sextets_recombine [of n] low0 by simp
  have np3: "b64_char (n div 64 mod 64) \<noteq> CHR ''=''" by (simp add: b64_char_not_pad)
  show ?thesis
    by (simp add: np3 b64_index_char lt rec hi mid)
qed

lemma decode_group1:
  fixes a :: byte
  defines "n \<equiv> unat a * 65536"
  shows "b64decode [b64_char (n div 262144), b64_char (n div 4096 mod 64),
            CHR ''='', CHR ''=''] = Some [a]"
proof -
  have n0: "n = unat a * 65536 + 0 * 256 + 0" by (simp add: n_def)
  have lt: "n div 262144 < 64"
    unfolding n0 by (rule triple_top_sextet) (simp_all add: unat_byte_less)
  have hi: "n div 65536 = unat a"
    unfolding n0 by (rule triple_high) simp_all
  have "n = 0 + (unat a * 1024) * 64" by (simp add: n_def)
  then have "n mod 64 = 0 mod 64" by (simp only: mod_mult_self1)
  then have low0: "n mod 64 = 0" by simp
  have "n div 64 = unat a * 16 * 64" by (simp add: n_def)
  then have mid0: "n div 64 mod 64 = 0" by simp
  have rec: "n div 262144 * 262144 + n div 4096 mod 64 * 4096 = n"
    using sextets_recombine [of n] low0 mid0 by simp
  show ?thesis
    by (simp add: b64_index_char lt rec hi)
qed

lemma b64decode_b64encode: "b64decode (b64encode bs) = Some bs"
proof (induction bs rule: b64encode.induct)
  case (1 a b c rest)
  have "b64decode (b64encode (a # b # c # rest))
          = map_option (\<lambda>bs. a # b # c # bs) (b64decode (b64encode rest))"
    by (simp only: b64encode.simps Let_def append_Cons append_Nil decode_group3)
  with 1 show ?case by simp
next
  case (2 a b)
  show ?case by (simp only: b64encode.simps Let_def decode_group2)
next
  case (3 a)
  show ?case by (simp only: b64encode.simps Let_def decode_group1)
next
  case 4
  show ?case by simp
qed

subsection \<open>The image encoder\<close>

text \<open>
  C3. For every image byte buffer, the output of \<open>encode_image\<close>, when base64-decoded,
  equals the original buffer exactly: the encoder returns the base64 encoding of the
  bytes of the file, all of them whatever the read position was, and decoding that string
  gives the bytes back. The buffer is one that can be read, that is, the file object is
  not closed.
\<close>

theorem encode_image_roundtrip:
  "\<not> closed file \<Longrightarrow>
     fst (encode_image file w) = Some (b64encode (file_bytes file))
     \<and> b64decode (b64encode (file_bytes file)) = Some (file_bytes file)"
  by (simp add: encode_image_def file_seek_def file_read_def b64decode_b64encode)

theorem encode_image_roundtrip_witness:
  "fst (encode_image man_file blank_world) = Some ''TWFu''
   \<and> b64decode ''TWFu'' = Some (file_bytes man_file)"
proof -
  have o: "\<not> closed man_file" by (simp add: man_file_def)
  have e: "b64encode (file_bytes man_file) = ''TWFu''"
    by (simp add: man_file_def b64_char_def b64_alphabet_def)
  from encode_image_roundtrip [OF o, of blank_world] show ?thesis
    by (simp only: e)
qed

subsection \<open>The video frame extractor\<close>

text \<open>
  Every exit of \<open>process_video_frame\<close> that reported no exception has unlinked the
  temporary file: the two branches of \<open>if ret\<close> do what the handler does not.
\<close>

lemma process_video_frame_unlinks_on_return:
  "tmp_name e = Inr path \<Longrightarrow> screen (snd (process_video_frame e video_file w)) = screen w
     \<Longrightarrow> disk (snd (process_video_frame e video_file w)) path = None"
  by (auto simp add: process_video_frame_def named_temporary_file_def file_read_def
        tmp_write_def os_unlink_def st_emit_def Let_def
        split: sum.splits option.splits if_splits)

text \<open>
  C1. The temporary file created at the start of a call to \<open>process_video_frame\<close> is
  deleted before the call returns, on every exit path, an exception during decoding or
  encoding included. The code does not do that: when the midpoint frame is read and
  \<open>cv2.imencode\<close> raises, the handler reports the error and returns
  \<open>(None, None)\<close>, and the file is still on disk with the bytes of the upload in it.
\<close>

theorem process_video_frame_leaves_file:
  "fst (process_video_frame failing_encoder_env clip_file blank_world) = (None, None)
   \<and> disk (snd (process_video_frame failing_encoder_env clip_file blank_world))
        ''/tmp/tmpk3x9.mp4'' = Some (file_bytes clip_file)"
  by (simp add: process_video_frame_def named_temporary_file_def file_read_def tmp_write_def
        cv2_VideoCapture_def cap_get_frame_count_def cap_set_pos_frames_def cap_read_def
        failing_encoder_env_def clip_env_def clip_capture_def clip_file_def blank_world_def
        st_emit_def Let_def)

text \<open>
  C2, as the claim states it, fails where it says that a reported frame count of 0 gives
  no result. The code never looks at the count except to halve it: with a count of 0 it
  seeks to index 0 and reads, and when the decoder yields a frame there (a container
  whose metadata carries no frame count), the extractor returns a payload and an image.
\<close>

theorem zero_count_counterexample:
  "cap_get_frame_count (cv2_VideoCapture headerless_env
       (tmp_write ''/tmp/tmpk3x9.mp4'' (file_bytes clip_file) blank_world)
       ''/tmp/tmpk3x9.mp4'') = 0
   \<and> fst (process_video_frame headerless_env clip_file blank_world)
       = (Some ''BwAA'', Some (Pil_image [[(0, 0, 7)]]))"
  by (simp add: process_video_frame_def named_temporary_file_def file_read_def tmp_write_def
        cv2_VideoCapture_def cap_get_frame_count_def cap_set_pos_frames_def cap_read_def
        headerless_env_def clip_env_def headerless_capture_def clip_file_def blank_world_def
        os_unlink_def Let_def one_pixel_frame_def raw_encoder_def cvtColor_BGR2RGB_def
        fromarray_def b64_char_def b64_alphabet_def)

text \<open>
  C2, amended. When the temporary file can be created and the upload read, and the decoder
  opens the file and reports \<open>N\<close> frames (any \<open>N\<close>, 0 included), the extractor's
  result is decided by the single read at index \<open>N // 2\<close> and by nothing else of the
  video: both results are absent when that read yields no frame (or the JPEG encoder
  raises), and otherwise they are the base64 of the JPEG of that frame and that frame in
  red, green, blue order. For a file the decoder cannot open both results are absent. The
  function returns a pair in every case.
\<close>

theorem process_video_frame_midpoint:
  assumes "tmp_name e = Inr path" and "\<not> closed video_file"
    and "cap = decoder e (drop (fpos w) (file_bytes video_file))"
  shows "(opened cap \<longrightarrow> frame_count cap = N \<longrightarrow>
            fst (process_video_frame e video_file w)
              = (case frame_at cap (N div 2) of
                   None \<Rightarrow> (None, None)
                 | Some fr \<Rightarrow>
                     (case imencode e fr of
                        Inl ex \<Rightarrow> (None, None)
                      | Inr buffer \<Rightarrow>
                          (Some (b64encode buffer), Some (Pil_image (cvtColor_BGR2RGB fr))))))
         \<and> (\<not> opened cap \<longrightarrow> fst (process_video_frame e video_file w) = (None, None))"
  using assms
  by (simp add: process_video_frame_def named_temporary_file_def file_read_def tmp_write_def
        cv2_VideoCapture_def cap_get_frame_count_def cap_set_pos_frames_def cap_read_def
        fromarray_def Let_def split: option.splits sum.splits)

theorem process_video_frame_midpoint_witness:
  "fst (process_video_frame clip_env clip_file blank_world)
     = (Some ''MgAA'', Some (Pil_image [[(0, 0, 50)]]))"
proof -
  have t: "tmp_name clip_env = Inr ''/tmp/tmpk3x9.mp4''" by (simp add: clip_env_def)
  have o: "\<not> closed clip_file" by (simp add: clip_file_def)
  have c: "clip_capture = decoder clip_env (drop (fpos blank_world) (file_bytes clip_file))"
    by (simp add: clip_env_def)
  have op: "opened clip_capture" by (simp add: clip_capture_def)
  have n: "frame_count clip_capture = 101" by (simp add: clip_capture_def)
  have fr: "frame_at clip_capture (101 div 2) = Some [[(50, 0, 0)]]"
    by (simp add: clip_capture_def one_pixel_frame_def)
  have enc: "imencode clip_env [[(50, 0, 0)]] = Inr [50, 0, 0]"
    by (simp add: clip_env_def raw_encoder_def)
  have b: "b64encode [50, 0, 0] = ''MgAA''"
    by (simp add: b64_char_def b64_alphabet_def)
  have rgb: "cvtColor_BGR2RGB [[(50, 0, 0)]] = [[(0, 0, 50)]]"
    by (simp add: cvtColor_BGR2RGB_def)
  from process_video_frame_midpoint [OF t o c, of 101] op n
  have "fst (process_video_frame clip_env clip_file blank_world)
          = (case frame_at clip_capture (101 div 2) of
               None \<Rightarrow> (None, None)
             | Some fr \<Rightarrow>
                 (case imencode clip_env fr of
                    Inl ex \<Rightarrow> (None, None)
                  | Inr buffer \<Rightarrow>
                      (Some (b64encode buffer), Some (Pil_image (cvtColor_BGR2RGB fr)))))"
    by blast
  then show ?thesis by (simp only: fr enc b rgb option.case sum.case)
qed

text \<open>
  C10. Every call to \<open>process_video_frame\<close> returns a paired outcome: the payload is
  \<open>None\<close> exactly when the display image is \<open>None\<close>.
\<close>

theorem process_video_frame_paired:
  "(fst (fst (process_video_frame e video_file w)) = None)
     = (snd (fst (process_video_frame e video_file w)) = None)"
  by (simp add: process_video_frame_def Let_def split: sum.splits prod.splits option.splits)

subsection \<open>The API key\<close>

text \<open>
  With the key in the secrets but empty, the prompt is the fallback and an empty answer
  stops the script. This is the path \<open>if not api_key\<close> is written for.
\<close>

lemma load_api_key_prompts_on_empty:
  "map_of (secrets i) ''GROQ_API_KEY'' = Some [] \<Longrightarrow>
     load_api_key i w
       = (if typed_key i = [] then
            (Stopped,
             st_emit (St_warning ''Please enter your Groq API key to continue.'')
               (st_emit (St_text_input ''Enter your Groq API key:'') w))
          else (Returned (typed_key i), st_emit (St_text_input ''Enter your Groq API key:'') w))"
  by (simp add: load_api_key_def secrets_getitem_def Let_def)

text \<open>
  C4. When the API key is absent from the secret configuration source, the program falls
  back to the masked prompt, halts before any request if the key is still absent, and no
  failure reaches the top level uncaught. The code does not do that: with no entry
  \<open>GROQ_API_KEY\<close> in the secrets the subscript raises \<open>KeyError\<close> in
  \<open>load_api_key\<close>, no prompt is shown although a key was typed, and \<open>main\<close>, which
  calls \<open>load_api_key\<close> outside any \<open>try\<close>, ends with that exception.
\<close>

theorem main_missing_secret_raises:
  "main clip_env no_secret_inputs blank_world
     = (Raised (Exception ''KeyError'' ''GROQ_API_KEY''), setup_page blank_world)"
  by (simp add: main_def load_api_key_def secrets_getitem_def no_secret_inputs_def)

subsection \<open>The vision query client\<close>

text \<open>
  C5, as the claim states it, fails: \<open>analyze_with_groq\<close> has no test of its payload.
  Called with \<open>None\<close> or with the empty string it builds the request and sends it.
\<close>

theorem empty_payload_counterexample:
  "sent (snd (analyze_with_groq clip_env (Groq ''gsk_1'') None ''What is this?'' blank_world))
     = [\<lparr>messages = build_messages None ''What is this?'',
         model = ''llama-3.2-11b-vision-preview'', temperature = 7 / 10, max_tokens = 1000\<rparr>]
   \<and> sent (snd (analyze_with_groq clip_env (Groq ''gsk_1'') (Some []) ''What is this?''
                  blank_world))
     = [\<lparr>messages = build_messages (Some []) ''What is this?'',
         model = ''llama-3.2-11b-vision-preview'', temperature = 7 / 10, max_tokens = 1000\<rparr>]"
  by (simp add: analyze_with_groq_def clip_env_def the_car_is_red_def blank_world_def
        st_emit_def Let_def Groq_def)

text \<open>
  C5, amended. The guard is in \<open>main\<close>, not in the client: with an empty or absent
  payload \<open>main\<close> (lines 158 to 167) does not call the client at all, shows
  ``Failed to process media file.'' and sends no request.
\<close>

theorem no_request_without_payload:
  "analyze_if_payload e cl None query_text w
     = st_emit (St_error ''Failed to process media file.'') w
   \<and> analyze_if_payload e cl (Some []) query_text w
     = st_emit (St_error ''Failed to process media file.'') w
   \<and> sent (analyze_if_payload e cl None query_text w) = sent w
   \<and> sent (analyze_if_payload e cl (Some []) query_text w) = sent w"
  by (simp add: analyze_if_payload_def st_emit_def)

text \<open>
  C6. For every payload and query (non-empty ones in particular) the request that
  \<open>analyze_with_groq\<close> sends holds exactly one message, of role \<open>user\<close>, whose
  content is exactly two parts in this order: a text part, the query after
  ``Please analyze this image and answer: '', then an image_url part, the payload after
  ``data:image/jpeg;base64,''.
\<close>

theorem analyze_with_groq_request_shape:
  "map messages (sent (snd (analyze_with_groq e cl (Some payload) query_text w)))
     = map messages (sent w) @
       [[\<lparr>role = ''user'',
          content =
            [Text_part (''Please analyze this image and answer: '' @ query_text),
             Image_url_part (''data:image/jpeg;base64,'' @ payload)]\<rparr>]]"
  by (simp add: analyze_with_groq_def build_messages_def st_emit_def Let_def
           split: sum.splits list.splits)

text \<open>
  C7. Every request \<open>analyze_with_groq\<close> sends (one per call) carries the model
  \<open>llama-3.2-11b-vision-preview\<close>, temperature 0.7 and at most 1000 output tokens,
  none of them taken from an argument; and when the endpoint answers with at least one
  choice the client returns exactly the message content of the first.
\<close>

theorem analyze_with_groq_fixed_parameters:
  "sent (snd (analyze_with_groq e cl base64_image query_text w))
     = sent w @ [\<lparr>messages = build_messages base64_image query_text,
                   model = ''llama-3.2-11b-vision-preview'',
                   temperature = 7 / 10, max_tokens = 1000\<rparr>]
   \<and> (create e (api_key cl)
         \<lparr>messages = build_messages base64_image query_text,
          model = ''llama-3.2-11b-vision-preview'',
          temperature = 7 / 10, max_tokens = 1000\<rparr> = Inr resp
       \<longrightarrow> choices resp = c # cs
       \<longrightarrow> fst (analyze_with_groq e cl base64_image query_text w) = message_content c)"
  by (simp add: analyze_with_groq_def st_emit_def Let_def split: sum.splits list.splits)

theorem analyze_with_groq_fixed_parameters_witness:
  "fst (analyze_with_groq clip_env (Groq ''gsk_1'') (Some ''TWFu'') ''What color is the car?''
          blank_world) = Some ''The car is red.''"
proof -
  have a: "create clip_env (api_key (Groq ''gsk_1''))
         \<lparr>messages = build_messages (Some ''TWFu'') ''What color is the car?'',
          model = ''llama-3.2-11b-vision-preview'',
          temperature = 7 / 10, max_tokens = 1000\<rparr> = Inr the_car_is_red"
    by (simp add: clip_env_def)
  have b: "choices the_car_is_red = \<lparr>message_content = Some ''The car is red.''\<rparr> # []"
    by (simp add: the_car_is_red_def)
  from analyze_with_groq_fixed_parameters [of clip_env "Groq ''gsk_1''" "Some ''TWFu''"
      "''What color is the car?''" blank_world the_car_is_red
      "\<lparr>message_content = Some ''The car is red.''\<rparr>" "[]"] a b
  show ?thesis by simp
qed

subsection \<open>The size gate\<close>

lemma too_large_iff: "too_large file = (10 * 1024 * 1024 < size_bytes file)"
proof -
  have "(10 < (of_nat (size_bytes file) :: rat) / (1024 * 1024))
          = ((10485760 :: rat) < of_nat (size_bytes file))"
    by (simp add: field_simps)
  also have "\<dots> = ((of_nat 10485760 :: rat) < of_nat (size_bytes file))"
    by simp
  also have "\<dots> = (10485760 < size_bytes file)"
    by (simp only: of_nat_less_iff)
  finally show ?thesis by (simp add: too_large_def file_size_mb_def)
qed

text \<open>
  C8. For an uploaded file and a non-empty query: when the size exceeds 10 MB (of
  \<open>1024 * 1024\<close> bytes) \<open>main\<close> shows the error and returns at once, so that
  neither \<open>encode_image\<close> nor \<open>process_video_frame\<close> runs: the world is the one
  before with the error message added, whatever the environment, and no file, request or
  read position has changed. A file of 9.9 MB (10380902 bytes, and any smaller one) goes
  on to \<open>process_media\<close>.
\<close>

theorem size_gate:
  "query_text \<noteq> [] \<Longrightarrow>
     (10 * 1024 * 1024 < size_bytes file \<longrightarrow>
        upload_section e cl mt (Some file) query_text w
          = (Return_now,
             st_emit (St_error ''File is too large! Please upload a file smaller than 10MB.'') w)
        \<and> disk (snd (upload_section e cl mt (Some file) query_text w)) = disk w
        \<and> sent (snd (upload_section e cl mt (Some file) query_text w)) = sent w
        \<and> fpos (snd (upload_section e cl mt (Some file) query_text w)) = fpos w)
     \<and> (size_bytes file \<le> 10380902 \<longrightarrow>
        upload_section e cl mt (Some file) query_text w
          = (Fall_through, process_media e cl mt file query_text w))"
  by (simp add: upload_section_def too_large_iff st_emit_def)

theorem size_gate_witness:
  "upload_section clip_env (Groq ''gsk_1'') Image (Some (file_of_size 10590618))
       ''What color is the car?'' blank_world
     = (Return_now,
        st_emit (St_error ''File is too large! Please upload a file smaller than 10MB.'')
          blank_world)
   \<and> upload_section clip_env (Groq ''gsk_1'') Image (Some (file_of_size 10380902))
       ''What color is the car?'' blank_world
     = (Fall_through,
        process_media clip_env (Groq ''gsk_1'') Image (file_of_size 10380902)
          ''What color is the car?'' blank_world)"
proof -
  have q: "''What color is the car?'' \<noteq> []" by simp
  have big: "10 * 1024 * 1024 < size_bytes (file_of_size 10590618)"
    by (simp add: file_of_size_def)
  have small: "size_bytes (file_of_size 10380902) \<le> 10380902"
    by (simp add: file_of_size_def)
  from size_gate [OF q, of "file_of_size 10590618" clip_env "Groq ''gsk_1''" Image blank_world]
    size_gate [OF q, of "file_of_size 10380902" clip_env "Groq ''gsk_1''" Image blank_world]
    big small
  show ?thesis by blast
qed

text \<open>
  C9. The gate is a strict comparison of the size in megabytes with 10: a file is too
  large exactly when it has more than \<open>10 * 1024 * 1024\<close> bytes, and a file of exactly
  that many bytes goes on to processing.
\<close>

theorem size_gate_boundary:
  "too_large file = (10 * 1024 * 1024 < size_bytes file)
   \<and> (size_bytes file = 10 * 1024 * 1024 \<longrightarrow> query_text \<noteq> [] \<longrightarrow>
        upload_section e cl mt (Some file) query_text w
          = (Fall_through, process_media e cl mt file query_text w))"
  by (simp add: upload_section_def too_large_iff)

theorem size_gate_boundary_witness:
  "\<not> too_large (file_of_size 10485760)
   \<and> too_large (file_of_size 10485761)
   \<and> upload_section clip_env (Groq ''gsk_1'') Video (Some (file_of_size 10485760))
       ''What happens?'' blank_world
     = (Fall_through,
        process_media clip_env (Groq ''gsk_1'') Video (file_of_size 10485760)
          ''What happens?'' blank_world)"
proof -
  have q: "''What happens?'' \<noteq> []" by simp
  have sz: "size_bytes (file_of_size 10485760) = 10 * 1024 * 1024"
    by (simp add: file_of_size_def)
  have sz1: "10 * 1024 * 1024 < size_bytes (file_of_size 10485761)"
    by (simp add: file_of_size_def)
  from size_gate_boundary [of "file_of_size 10485760" "''What happens?''" clip_env
      "Groq ''gsk_1''" Video blank_world]
    size_gate_boundary [of "file_of_size 10485761" "''What happens?''" clip_env
      "Groq ''gsk_1''" Video blank_world]
    q sz sz1
  show ?thesis by simp
qed

end
